theory Spec2Isabelle
  imports Main
begin

section \<open>JavaScript primitives the limiters and routes rely on\<close>

text \<open>
  Times are milliseconds since the epoch as returned by \<^verbatim>\<open>Date.now()\<close>: integers,
  far below \<open>2^53\<close>, so the double arithmetic of the source is exact integer
  arithmetic. \<^verbatim>\<open>Math.floor(x / 1000)\<close> on an integer \<open>x\<close> is \<open>x div 1000\<close>
  (\<open>div\<close> on \<open>int\<close> rounds towards minus infinity), \<^verbatim>\<open>Math.ceil(x / 1000)\<close> is
  \<open>- ((- x) div 1000)\<close>.
\<close>

definition digit :: "int \<Rightarrow> char" where
  "digit d = ''0123456789'' ! nat d"

text \<open>The decimal digits of a non-negative integer, most significant first.\<close>

function digits :: "int \<Rightarrow> string" where
  "digits n = (if n < 10 then [digit n] else digits (n div 10) @ [digit (n mod 10)])"
  by pat_completeness auto
termination
  by (relation "measure nat") auto

declare digits.simps [simp del]

text \<open>
  \<^verbatim>\<open>String(n)\<close> and template interpolation of an integer-valued number (below
  \<open>10^21\<close> in magnitude, where JavaScript prints plain decimal digits).
\<close>

definition js_String :: "int \<Rightarrow> string" where
  "js_String n = (if n < 0 then CHR ''-'' # digits (- n) else digits n)"

definition floorDiv1000 :: "int \<Rightarrow> int" where
  "floorDiv1000 x = x div 1000"

definition ceilDiv1000 :: "int \<Rightarrow> int" where
  "ceilDiv1000 x = - ((- x) div 1000)"

subsection \<open>UTC calendar of \<^verbatim>\<open>Date\<close>\<close>

text \<open>
  \<^verbatim>\<open>new Date(now).getUTCFullYear()\<close>, \<^verbatim>\<open>getUTCMonth()\<close> (zero-based) and
  \<^verbatim>\<open>Date.UTC(year, month, 1)\<close> of the proleptic Gregorian calendar, computed from the
  day number \<open>now div 86400000\<close> with 400-year eras starting on 1 March.
\<close>

definition civilFromDays :: "int \<Rightarrow> int \<times> int" where
  "civilFromDays z =
     (let z' = z + 719468;
          era = z' div 146097;
          doe = z' - era * 146097;
          yoe = (doe - doe div 1460 + doe div 36524 - doe div 146096) div 365;
          y = yoe + era * 400;
          doy = doe - (365 * yoe + yoe div 4 - yoe div 100);
          mp = (5 * doy + 2) div 153;
          m = (if mp < 10 then mp + 3 else mp - 9)
      in (if m \<le> 2 then y + 1 else y, m - 1))"

definition getUTCFullYear :: "int \<Rightarrow> int" where
  "getUTCFullYear now = fst (civilFromDays (now div 86400000))"

definition getUTCMonth :: "int \<Rightarrow> int" where
  "getUTCMonth now = snd (civilFromDays (now div 86400000))"

text \<open>\<^verbatim>\<open>Date.UTC(year, month, 1, 0, 0, 0, 0)\<close>; a month index of 12 carries into the year.\<close>

definition Date_UTC :: "int \<Rightarrow> int \<Rightarrow> int" where
  "Date_UTC year month =
     (let ym = year + month div 12;
          mn = month mod 12 + 1;
          y = (if mn \<le> 2 then ym - 1 else ym);
          era = y div 400;
          yoe = y - era * 400;
          doy = (153 * (if mn > 2 then mn - 3 else mn + 9) + 2) div 5;
          doe = yoe * 365 + yoe div 4 - yoe div 100 + doy
      in (era * 146097 + doe - 719468) * 86400000)"

section \<open>Quota decisions\<close>

type_synonym headers = "(string \<times> string) list"

datatype reason = Minute | Month

datatype RateLimitResult =
    allowed: Allowed (headers: headers) (minuteRemaining: int) (monthRemaining: int)
  | Denied (headers: headers) (reason: reason) (retryAfterSeconds: "int option")

definition MAX_PER_MINUTE :: int where "MAX_PER_MINUTE = 20"
definition MAX_PER_MONTH :: int where "MAX_PER_MONTH = 500"
definition MINUTE_WINDOW_MS :: int where "MINUTE_WINDOW_MS = 60000"

section \<open>The local-memory limiter (\<^verbatim>\<open>_lib/rateLimiter.ts\<close>)\<close>

text \<open>The four module-level variables, initially \<open>0\<close>, \<open>0\<close>, \<open>""\<close>, \<open>0\<close>.\<close>

record limiter_state =
  minuteWindowStart :: int
  minuteCount :: int
  monthKey :: string
  monthCount :: int

definition initial_limiter :: limiter_state where
  "initial_limiter = \<lparr>minuteWindowStart = 0, minuteCount = 0, monthKey = [], monthCount = 0\<rparr>"

definition ensureMinuteWindow :: "int \<Rightarrow> limiter_state \<Rightarrow> limiter_state" where
  "ensureMinuteWindow now s =
     (if minuteWindowStart s = 0 \<or> now - minuteWindowStart s \<ge> MINUTE_WINDOW_MS
      then s\<lparr>minuteWindowStart := now, minuteCount := 0\<rparr>
      else s)"

definition getMonthKey :: "int \<Rightarrow> string" where
  "getMonthKey now = js_String (getUTCFullYear now) @ ''-'' @ js_String (getUTCMonth now)"

definition ensureMonthWindow :: "int \<Rightarrow> limiter_state \<Rightarrow> limiter_state" where
  "ensureMonthWindow now s =
     (let key = getMonthKey now
      in if monthKey s \<noteq> key then s\<lparr>monthKey := key, monthCount := 0\<rparr> else s)"

definition nextMonthResetEpochSeconds :: "int \<Rightarrow> int" where
  "nextMonthResetEpochSeconds now =
     floorDiv1000 (Date_UTC (getUTCFullYear now) (getUTCMonth now + 1))"

definition minuteResetEpochSeconds :: "limiter_state \<Rightarrow> int" where
  "minuteResetEpochSeconds s = floorDiv1000 (minuteWindowStart s + MINUTE_WINDOW_MS)"

definition buildHeaders :: "limiter_state \<Rightarrow> int \<Rightarrow> int \<Rightarrow> int \<Rightarrow> headers" where
  "buildHeaders s now currentMinuteCount currentMonthCount =
     (let minuteRemaining = max 0 (MAX_PER_MINUTE - currentMinuteCount);
          monthRemaining = max 0 (MAX_PER_MONTH - currentMonthCount)
      in [(''x-ratelimit-limit-minute'', js_String MAX_PER_MINUTE),
          (''x-ratelimit-remaining-minute'', js_String minuteRemaining),
          (''x-ratelimit-reset-minute'', js_String (minuteResetEpochSeconds s)),
          (''x-ratelimit-limit-month'', js_String MAX_PER_MONTH),
          (''x-ratelimit-remaining-month'', js_String monthRemaining),
          (''x-ratelimit-reset-month'', js_String (nextMonthResetEpochSeconds now))])"

text \<open>
  \<^verbatim>\<open>consumeRateLimit()\<close> reads the clock once (\<open>now\<close>), resolves both windows, and
  returns the decision together with the module state it leaves behind.
\<close>

definition consumeRateLimit :: "int \<Rightarrow> limiter_state \<Rightarrow> RateLimitResult \<times> limiter_state" where
  "consumeRateLimit now s0 =
     (let s = ensureMonthWindow now (ensureMinuteWindow now s0)
      in if minuteCount s \<ge> MAX_PER_MINUTE then
           (let hs = buildHeaders s now (minuteCount s) (monthCount s);
                retryAfter = max 1 (minuteResetEpochSeconds s - floorDiv1000 now)
            in (Denied hs Minute (Some retryAfter), s))
         else if monthCount s \<ge> MAX_PER_MONTH then
           (let hs = buildHeaders s now (minuteCount s) (monthCount s)
            in (Denied hs Month None, s))
         else
           (let s' = s\<lparr>minuteCount := minuteCount s + 1, monthCount := monthCount s + 1\<rparr>;
                hs = buildHeaders s' now (minuteCount s') (monthCount s')
            in (Allowed hs (max 0 (MAX_PER_MINUTE - minuteCount s'))
                           (max 0 (MAX_PER_MONTH - monthCount s')), s')))"

definition rateLimitSnapshotHeaders :: "int \<Rightarrow> limiter_state \<Rightarrow> headers \<times> limiter_state" where
  "rateLimitSnapshotHeaders now s0 =
     (let s = ensureMonthWindow now (ensureMinuteWindow now s0)
      in (buildHeaders s now (minuteCount s) (monthCount s), s))"

section \<open>The shared-store limiter (\<^verbatim>\<open>_lib/rateLimiterKV.ts\<close>)\<close>

text \<open>
  The networked key-value store holds the minute record under \<^verbatim>\<open>rate:minute\<close> and
  one bare integer per month under \<^verbatim>\<open>rate:month:KEY\<close>. Each entry carries the
  instant (ms) at which the store drops it: \<^verbatim>\<open>{ex: 60}\<close> is sixty seconds after the
  write, \<^verbatim>\<open>{exat: t}\<close> is epoch second \<open>t\<close>. A \<^verbatim>\<open>get\<close> of an absent or expired key
  yields \<^verbatim>\<open>null\<close>. One handler invocation is taken at a single instant \<open>now\<close> and
  the store is taken to answer; a rejected store call aborts the handler.
\<close>

record minute_record =
  count :: int
  windowStart :: int

record kv_store =
  minuteEntry :: "(minute_record \<times> int) option"
  monthEntries :: "string \<rightharpoonup> (int \<times> int)"

definition empty_kv :: kv_store where
  "empty_kv = \<lparr>minuteEntry = None, monthEntries = Map.empty\<rparr>"

definition kv_get_minute :: "int \<Rightarrow> kv_store \<Rightarrow> minute_record option" where
  "kv_get_minute now st =
     (case minuteEntry st of
        None \<Rightarrow> None
      | Some (v, expiresAt) \<Rightarrow> if now < expiresAt then Some v else None)"

definition kv_get_month :: "int \<Rightarrow> string \<Rightarrow> kv_store \<Rightarrow> int option" where
  "kv_get_month now k st =
     (case monthEntries st k of
        None \<Rightarrow> None
      | Some (v, expiresAt) \<Rightarrow> if now < expiresAt then Some v else None)"

definition kv_set_minute :: "int \<Rightarrow> minute_record \<Rightarrow> int \<Rightarrow> kv_store \<Rightarrow> kv_store" where
  "kv_set_minute now v ex st = st\<lparr>minuteEntry := Some (v, now + ex * 1000)\<rparr>"

definition kv_set_month :: "string \<Rightarrow> int \<Rightarrow> int \<Rightarrow> kv_store \<Rightarrow> kv_store" where
  "kv_set_month k v exat st = st\<lparr>monthEntries := (monthEntries st)(k \<mapsto> (v, exat * 1000))\<rparr>"

definition kv_consumeRateLimit :: "int \<Rightarrow> kv_store \<Rightarrow> RateLimitResult \<times> kv_store" where
  "kv_consumeRateLimit now st =
     (let monthKey = ''rate:month:'' @ getMonthKey now;
          minuteData = kv_get_minute now st;
          monthCount = kv_get_month now monthKey st;
          minuteWindowStart = (case minuteData of Some d \<Rightarrow> windowStart d | None \<Rightarrow> now);
          isMinuteExpired = (now - minuteWindowStart \<ge> MINUTE_WINDOW_MS);
          currentMinuteCount =
            (if isMinuteExpired then 0 else (case minuteData of Some d \<Rightarrow> count d | None \<Rightarrow> 0));
          currentMonthCount = (case monthCount of Some c \<Rightarrow> c | None \<Rightarrow> 0);
          minuteRemaining = max 0 (MAX_PER_MINUTE - currentMinuteCount);
          monthRemaining = max 0 (MAX_PER_MONTH - currentMonthCount);
          minuteResetSeconds = ceilDiv1000 (minuteWindowStart + MINUTE_WINDOW_MS - now);
          nextMonth = Date_UTC (getUTCFullYear now) (getUTCMonth now + 1);
          monthResetSeconds = floorDiv1000 nextMonth;
          hs = [(''x-ratelimit-limit-minute'', js_String MAX_PER_MINUTE),
                (''x-ratelimit-remaining-minute'', js_String minuteRemaining),
                (''x-ratelimit-reset-minute'',
                   js_String (floorDiv1000 (minuteWindowStart + MINUTE_WINDOW_MS))),
                (''x-ratelimit-limit-month'', js_String MAX_PER_MONTH),
                (''x-ratelimit-remaining-month'', js_String monthRemaining),
                (''x-ratelimit-reset-month'', js_String monthResetSeconds)]
      in if currentMinuteCount \<ge> MAX_PER_MINUTE then
           (Denied hs Minute (Some (max 1 minuteResetSeconds)), st)
         else if currentMonthCount \<ge> MAX_PER_MONTH then
           (Denied hs Month None, st)
         else
           (let newMinuteCount = currentMinuteCount + 1;
                newMonthCount = currentMonthCount + 1;
                newWindowStart = (if isMinuteExpired then now else minuteWindowStart);
                st' = kv_set_month monthKey newMonthCount monthResetSeconds
                        (kv_set_minute now \<lparr>count = newMinuteCount, windowStart = newWindowStart\<rparr>
                           60 st)
            in (Allowed hs (MAX_PER_MINUTE - newMinuteCount) (MAX_PER_MONTH - newMonthCount),
                st')))"

section \<open>Payloads, upstream replies and responses\<close>

text \<open>
  A payload is whatever \<^verbatim>\<open>res.json()\<close> parsed. The singleton cache tests its payload
  for truthiness: \<^verbatim>\<open>null\<close>, \<^verbatim>\<open>false\<close>, \<^verbatim>\<open>0\<close> and \<^verbatim>\<open>""\<close> are falsy, every
  array and object is truthy. Numbers are kept to the integers: of a number, only
  whether it is zero is ever looked at.
\<close>

datatype json =
    JNull
  | JBool bool
  | JNumber int
  | JString string
  | JArray "json list"
  | JObject "(string \<times> json) list"

fun truthy :: "json \<Rightarrow> bool" where
  "truthy JNull = False"
| "truthy (JBool b) = b"
| "truthy (JNumber n) = (n \<noteq> 0)"
| "truthy (JString s) = (s \<noteq> [])"
| "truthy (JArray xs) = True"
| "truthy (JObject kvs) = True"

text \<open>
  What \<^verbatim>\<open>await fetch(url)\<close> yields: the promise rejects, or resolves to a response
  with a status and a body that \<^verbatim>\<open>res.json()\<close> parses (\<open>Some\<close>) or rejects (\<open>None\<close>).
\<close>

datatype fetch_result = FetchRejected | Response (status: int) (json_body: "json option")

text \<open>\<^verbatim>\<open>res.ok\<close>: the status is in the range 200 to 299.\<close>

definition ok :: "fetch_result \<Rightarrow> bool" where
  "ok res = (case res of FetchRejected \<Rightarrow> False | Response st b \<Rightarrow> 200 \<le> st \<and> st \<le> 299)"

text \<open>
  What can escape a handler: the rejected \<^verbatim>\<open>fetch\<close>, the rejected \<^verbatim>\<open>res.json()\<close>, and
  the two exceptions of the \<^verbatim>\<open>Response\<close> constructor behind \<^verbatim>\<open>NextResponse.json\<close>:
  a \<^verbatim>\<open>RangeError\<close> for a status outside 200 to 599 and a \<^verbatim>\<open>TypeError\<close> for a body
  given together with a null-body status.
\<close>

datatype handler_error = FetchFailed | JsonParseFailed | StatusRangeError | NullBodyStatusError

record next_response =
  nr_status :: int
  nr_headers :: headers
  nr_body :: json

text \<open>
  \<^verbatim>\<open>NextResponse.json(body, {status, headers})\<close>; the status defaults to 200. The body
  is the serialised JSON, never absent, so the constructor throws for a status outside
  200 to 599 and, inside that range, for the null-body statuses 204, 205 and 304.
\<close>

definition null_body_status :: "int \<Rightarrow> bool" where
  "null_body_status st = (st = 101 \<or> st = 103 \<or> st = 204 \<or> st = 205 \<or> st = 304)"

definition NextResponse_json ::
  "json \<Rightarrow> int \<Rightarrow> headers \<Rightarrow> handler_error + next_response" where
  "NextResponse_json b st hs =
     (if st < 200 \<or> 599 < st then Inl StatusRangeError
      else if null_body_status st then Inl NullBodyStatusError
      else Inr \<lparr>nr_status = st, nr_headers = hs, nr_body = b\<rparr>)"

definition failure_body :: "string \<Rightarrow> json" where
  "failure_body message = JObject [(''success'', JBool False), (''message'', JString message)]"

text \<open>
  The quota-denied branch shared verbatim by both routes: copy the quota headers, add
  \<^verbatim>\<open>retry-after\<close> when \<^verbatim>\<open>quota.retryAfterSeconds\<close> is truthy, answer 429.
\<close>

definition denied_response :: "RateLimitResult \<Rightarrow> handler_error + next_response" where
  "denied_response quota =
     (let hs = (case retryAfterSeconds quota of
                  Some n \<Rightarrow> if n \<noteq> 0 then headers quota @ [(''retry-after'', js_String n)]
                            else headers quota
                | None \<Rightarrow> headers quota);
          message = (if reason quota = Minute
                     then ''Minute rate limit reached (20 req/min). Please wait before refreshing again.''
                     else ''Monthly quota reached (500 calls/mo).'')
      in NextResponse_json (failure_body message) 429 hs)"

section \<open>Response caches and the two routes\<close>

definition HOT_CACHE_TTL_MS :: int where "HOT_CACHE_TTL_MS = 60000"

record cache_entry =
  data :: json
  ts :: int

text \<open>
  Everything the two route modules and their limiters keep between requests: the
  variables of \<^verbatim>\<open>rateLimiter.ts\<close>, the networked store behind \<^verbatim>\<open>rateLimiterKV.ts\<close>,
  the single slot \<^verbatim>\<open>CACHE\<close> of \<^verbatim>\<open>indices/route.ts\<close> (initially \<^verbatim>\<open>{data: null, ts: 0}\<close>)
  and the \<^verbatim>\<open>Map\<close> \<^verbatim>\<open>CACHE\<close> of \<^verbatim>\<open>indices-performance/route.ts\<close> (initially empty).
\<close>

record server_state =
  limiter :: limiter_state
  kv :: kv_store
  indicesCache :: cache_entry
  performanceCache :: "string \<rightharpoonup> cache_entry"

definition initial_server :: server_state where
  "initial_server =
     \<lparr>limiter = initial_limiter, kv = empty_kv,
      indicesCache = \<lparr>data = JNull, ts = 0\<rparr>, performanceCache = Map.empty\<rparr>"

text \<open>
  The cache reads and writes are written inline in the handlers; they are named here so
  that the handlers below and the statements about the cache use the same terms.
  The singleton read is \<^verbatim>\<open>CACHE.data && now - CACHE.ts < HOT_CACHE_TTL_MS\<close>, the keyed
  read is \<^verbatim>\<open>cached && Date.now() - cached.ts < HOT_CACHE_TTL_MS\<close> on
  \<^verbatim>\<open>cached = CACHE.get(key)\<close>, an object or \<^verbatim>\<open>undefined\<close>.
\<close>

definition singleton_get :: "int \<Rightarrow> cache_entry \<Rightarrow> json option" where
  "singleton_get now c =
     (if truthy (data c) \<and> now - ts c < HOT_CACHE_TTL_MS then Some (data c) else None)"

definition singleton_put :: "int \<Rightarrow> json \<Rightarrow> cache_entry \<Rightarrow> cache_entry" where
  "singleton_put now payload c = c\<lparr>data := payload, ts := now\<rparr>"

definition keyed_get :: "int \<Rightarrow> cache_entry option \<Rightarrow> json option" where
  "keyed_get now cached =
     (case cached of
        None \<Rightarrow> None
      | Some e \<Rightarrow> if now - ts e < HOT_CACHE_TTL_MS then Some (data e) else None)"

definition keyed_put ::
  "int \<Rightarrow> string \<Rightarrow> json \<Rightarrow> (string \<rightharpoonup> cache_entry) \<Rightarrow> (string \<rightharpoonup> cache_entry)" where
  "keyed_put now key payload m = m(key \<mapsto> \<lparr>data = payload, ts = now\<rparr>)"

text \<open>
  What one handler invocation leaves: the response (or the exception that escaped), the
  URLs it fetched from the upstream, and the state afterwards.
\<close>

record outcome =
  reply :: "handler_error + next_response"
  fetched :: "string list"
  after :: server_state

definition API_URL :: string where
  "API_URL = ''https://token-metrics-api1.p.rapidapi.com/v3/indices''"

definition upstream_error_response ::
  "int \<Rightarrow> headers \<Rightarrow> handler_error + next_response" where
  "upstream_error_response st hs =
     NextResponse_json (failure_body (''Upstream error: '' @ js_String st)) st hs"

text \<open>
  \<^verbatim>\<open>GET\<close> of \<^verbatim>\<open>indices/route.ts\<close>. The clock is read three times: inside
  \<^verbatim>\<open>consumeRateLimit()\<close> (\<open>tq\<close>), for the freshness test (\<open>tc\<close>) and when the slot is
  stamped (\<open>tw\<close>).
\<close>

definition GET_indices ::
  "int \<Rightarrow> int \<Rightarrow> int \<Rightarrow> (string \<Rightarrow> fetch_result) \<Rightarrow> server_state \<Rightarrow> outcome" where
  "GET_indices tq tc tw fetch g0 =
     (let (quota, lim) = consumeRateLimit tq (limiter g0);
          g = g0\<lparr>limiter := lim\<rparr>
      in if \<not> allowed quota then
           \<lparr>reply = denied_response quota, fetched = [], after = g\<rparr>
         else
           (case singleton_get tc (indicesCache g) of
              Some payload \<Rightarrow>
                \<lparr>reply = NextResponse_json payload 200 (headers quota),
                 fetched = [], after = g\<rparr>
            | None \<Rightarrow>
                (case fetch API_URL of
                   FetchRejected \<Rightarrow>
                     \<lparr>reply = Inl FetchFailed, fetched = [API_URL], after = g\<rparr>
                 | Response st b \<Rightarrow>
                     if \<not> ok (Response st b) then
                       \<lparr>reply = upstream_error_response st (headers quota),
                        fetched = [API_URL], after = g\<rparr>
                     else
                       (case b of
                          None \<Rightarrow>
                            \<lparr>reply = Inl JsonParseFailed, fetched = [API_URL], after = g\<rparr>
                        | Some payload \<Rightarrow>
                            \<lparr>reply = NextResponse_json payload 200 (headers quota),
                             fetched = [API_URL],
                             after = g\<lparr>indicesCache :=
                                        singleton_put tw payload (indicesCache g)\<rparr>\<rparr>))))"

text \<open>
  \<^verbatim>\<open>GET\<close> of \<^verbatim>\<open>indices-performance/route.ts\<close>. \<^verbatim>\<open>searchParams.get\<close> yields a string
  or \<^verbatim>\<open>null\<close>; \<^verbatim>\<open>!id\<close> holds for \<^verbatim>\<open>null\<close> and for the empty string.
\<close>

record search_params =
  id_param :: "string option"
  limit_param :: "string option"
  page_param :: "string option"

definition cache_key :: "string \<Rightarrow> string \<Rightarrow> string \<Rightarrow> string" where
  "cache_key ident lim page = ''id:'' @ ident @ '':limit:'' @ lim @ '':page:'' @ page"

definition performance_url :: "string \<Rightarrow> string \<Rightarrow> string \<Rightarrow> string" where
  "performance_url ident lim page =
     ''https://token-metrics-api1.p.rapidapi.com/v3/indices-performance?limit='' @ lim
       @ ''&page='' @ page @ ''&id='' @ ident"

definition GET_performance ::
  "search_params \<Rightarrow> int \<Rightarrow> int \<Rightarrow> int \<Rightarrow> (string \<Rightarrow> fetch_result) \<Rightarrow> server_state
     \<Rightarrow> outcome" where
  "GET_performance req tq tc tw fetch g0 =
     (case id_param req of
        None \<Rightarrow>
          \<lparr>reply = NextResponse_json (failure_body ''id required'') 400 [],
           fetched = [], after = g0\<rparr>
      | Some ident \<Rightarrow>
          if ident = [] then
            \<lparr>reply = NextResponse_json (failure_body ''id required'') 400 [],
             fetched = [], after = g0\<rparr>
          else
            (let lim = (case limit_param req of Some l \<Rightarrow> l | None \<Rightarrow> ''50'');
                 page = (case page_param req of Some p \<Rightarrow> p | None \<Rightarrow> ''1'');
                 key = cache_key ident lim page;
                 cached = performanceCache g0 key;
                 (quota, store) = kv_consumeRateLimit tq (kv g0);
                 g = g0\<lparr>kv := store\<rparr>
             in if \<not> allowed quota then
                  \<lparr>reply = denied_response quota, fetched = [], after = g\<rparr>
                else
                  (case keyed_get tc cached of
                     Some payload \<Rightarrow>
                       \<lparr>reply = NextResponse_json payload 200 (headers quota),
                        fetched = [], after = g\<rparr>
                   | None \<Rightarrow>
                       (let url = performance_url ident lim page
                        in case fetch url of
                             FetchRejected \<Rightarrow>
                               \<lparr>reply = Inl FetchFailed, fetched = [url], after = g\<rparr>
                           | Response st b \<Rightarrow>
                               if \<not> ok (Response st b) then
                                 \<lparr>reply = upstream_error_response st (headers quota),
                                  fetched = [url], after = g\<rparr>
                               else
                                 (case b of
                                    None \<Rightarrow>
                                      \<lparr>reply = Inl JsonParseFailed, fetched = [url], after = g\<rparr>
                                  | Some payload \<Rightarrow>
                                      \<lparr>reply = NextResponse_json payload 200 (headers quota),
                                       fetched = [url],
                                       after = g\<lparr>performanceCache :=
                                                  keyed_put tw key payload
                                                    (performanceCache g)\<rparr>\<rparr>)))))"

section \<open>Terms used in the statements\<close>

text \<open>Steps 1 and 2 of \<^verbatim>\<open>consumeRateLimit()\<close>: both windows resolved at \<open>now\<close>.\<close>

abbreviation (input) resolved :: "int \<Rightarrow> limiter_state \<Rightarrow> limiter_state" where
  "resolved now s \<equiv> ensureMonthWindow now (ensureMinuteWindow now s)"

text \<open>
  The values \<^verbatim>\<open>monthKey\<close>, \<^verbatim>\<open>minuteWindowStart\<close>, \<^verbatim>\<open>isMinuteExpired\<close>,
  \<^verbatim>\<open>currentMinuteCount\<close> and \<^verbatim>\<open>currentMonthCount\<close> that the shared-store
  \<^verbatim>\<open>consumeRateLimit()\<close> computes from what it read, as functions of the clock reading
  and the store.
\<close>

definition kv_monthKey :: "int \<Rightarrow> string" where
  "kv_monthKey now = ''rate:month:'' @ getMonthKey now"

definition kv_minuteWindowStart :: "int \<Rightarrow> kv_store \<Rightarrow> int" where
  "kv_minuteWindowStart now st =
     (case kv_get_minute now st of Some d \<Rightarrow> windowStart d | None \<Rightarrow> now)"

definition kv_isMinuteExpired :: "int \<Rightarrow> kv_store \<Rightarrow> bool" where
  "kv_isMinuteExpired now st = (now - kv_minuteWindowStart now st \<ge> MINUTE_WINDOW_MS)"

definition kv_currentMinuteCount :: "int \<Rightarrow> kv_store \<Rightarrow> int" where
  "kv_currentMinuteCount now st =
     (if kv_isMinuteExpired now st then 0
      else (case kv_get_minute now st of Some d \<Rightarrow> count d | None \<Rightarrow> 0))"

definition kv_currentMonthCount :: "int \<Rightarrow> kv_store \<Rightarrow> int" where
  "kv_currentMonthCount now st =
     (case kv_get_month now (kv_monthKey now) st of Some c \<Rightarrow> c | None \<Rightarrow> 0)"

text \<open>
  Running \<^verbatim>\<open>consumeRateLimit()\<close> once per clock reading of a list, each call on the
  state the previous one left.
\<close>

fun consume_each :: "int list \<Rightarrow> limiter_state \<Rightarrow> RateLimitResult list" where
  "consume_each [] s = []"
| "consume_each (t # rest) s =
     (case consumeRateLimit t s of (r, s') \<Rightarrow> r # consume_each rest s')"

text \<open>The state such a run leaves.\<close>

fun after_each :: "int list \<Rightarrow> limiter_state \<Rightarrow> limiter_state" where
  "after_each [] s = s"
| "after_each (t # rest) s = after_each rest (snd (consumeRateLimit t s))"

text \<open>
  Concrete states, all in November 2023 (month key \<open>2023-10\<close>, next month at
  1701388800000 ms): a window opened at 1700000000000 or 1700000000500 ms with some
  calls already counted, and the state after 20 calls in the last second of the month.
\<close>

definition month_end_state :: limiter_state where
  "month_end_state =
     \<lparr>minuteWindowStart = 1701388799500, minuteCount = 20,
      monthKey = ''2023-10'', monthCount = 20\<rparr>"

definition both_caps_state :: limiter_state where
  "both_caps_state =
     \<lparr>minuteWindowStart = 1700000000000, minuteCount = 20,
      monthKey = ''2023-10'', monthCount = 500\<rparr>"

definition month_cap_state :: limiter_state where
  "month_cap_state =
     \<lparr>minuteWindowStart = 1700000000000, minuteCount = 3,
      monthKey = ''2023-10'', monthCount = 500\<rparr>"

definition full_window_state :: limiter_state where
  "full_window_state =
     \<lparr>minuteWindowStart = 1700000000500, minuteCount = 20,
      monthKey = ''2023-10'', monthCount = 20\<rparr>"

definition live_state :: limiter_state where
  "live_state =
     \<lparr>minuteWindowStart = 1700000000000, minuteCount = 3,
      monthKey = ''2023-10'', monthCount = 3\<rparr>"


definition both_caps_store :: kv_store where
  "both_caps_store =
     \<lparr>minuteEntry = Some (\<lparr>count = 20, windowStart = 1700000000000\<rparr>, 1700000060000),
      monthEntries = [''rate:month:2023-10'' \<mapsto> (500, 1701388800000)]\<rparr>"

definition month_cap_store :: kv_store where
  "month_cap_store =
     \<lparr>minuteEntry = Some (\<lparr>count = 3, windowStart = 1700000000000\<rparr>, 1700000060000),
      monthEntries = [''rate:month:2023-10'' \<mapsto> (500, 1701388800000)]\<rparr>"

definition upstream_503 :: "string \<Rightarrow> fetch_result" where
  "upstream_503 url = Response 503 None"


definition upstream_null :: "string \<Rightarrow> fetch_result" where
  "upstream_null url = Response 200 (Some JNull)"

definition request_1 :: search_params where
  "request_1 = \<lparr>id_param = Some ''1'', limit_param = None, page_param = None\<rparr>"

text \<open>
  The server after one request to the parameterless route whose upstream answered 200
  with the body \<^verbatim>\<open>null\<close>, and a slot holding an empty array.
\<close>

definition null_cached_server :: server_state where
  "null_cached_server =
     after (GET_indices 1700000000000 1700000000001 1700000000002 upstream_null initial_server)"

definition array_entry :: cache_entry where
  "array_entry = \<lparr>data = JArray [], ts = 1700000000000\<rparr>"

definition month_cap_server :: server_state where
  "month_cap_server = initial_server\<lparr>limiter := month_cap_state, kv := month_cap_store\<rparr>"

section \<open>The calendar and the example states\<close>

lemma calendar_examples:
  "getMonthKey 0 = ''1970-0''"
  "getMonthKey 951782400000 = ''2000-1''"
  "getMonthKey 951868800000 = ''2000-2''"
  "getMonthKey 1700000000000 = ''2023-10''"
  "getMonthKey 1701388799999 = ''2023-10''"
  "getMonthKey 1701388800000 = ''2023-11''"
  "nextMonthResetEpochSeconds 1700000000000 = 1701388800"
  "nextMonthResetEpochSeconds 1701388800000 = 1704067200"
  by code_simp+

text \<open>The example states with few calls counted are what runs from the initial state leave.\<close>

lemma full_window_state_reached:
  "after_each (replicate 20 1700000000500) initial_limiter = full_window_state"
  by code_simp

lemma live_state_reached:
  "after_each (replicate 3 1700000000000) initial_limiter = live_state"
  by code_simp

lemma month_end_state_reached:
  "after_each (replicate 20 1701388799500) initial_limiter = month_end_state"
  by code_simp

section \<open>Facts about the local-memory limiter\<close>

lemma consume_minute_denied:
  "MAX_PER_MINUTE \<le> minuteCount (resolved now s0) \<Longrightarrow>
   consumeRateLimit now s0 =
     (Denied (buildHeaders (resolved now s0) now (minuteCount (resolved now s0))
                (monthCount (resolved now s0)))
        Minute (Some (max 1 (minuteResetEpochSeconds (resolved now s0) - floorDiv1000 now))),
      resolved now s0)"
  by (simp add: consumeRateLimit_def Let_def)

lemma consume_month_denied:
  "minuteCount (resolved now s0) < MAX_PER_MINUTE \<Longrightarrow>
   MAX_PER_MONTH \<le> monthCount (resolved now s0) \<Longrightarrow>
   consumeRateLimit now s0 =
     (Denied (buildHeaders (resolved now s0) now (minuteCount (resolved now s0))
                (monthCount (resolved now s0)))
        Month None,
      resolved now s0)"
  by (simp add: consumeRateLimit_def Let_def)

lemma consume_state:
  "snd (consumeRateLimit now s0) =
     (if allowed (fst (consumeRateLimit now s0))
      then (resolved now s0)\<lparr>minuteCount := minuteCount (resolved now s0) + 1,
                               monthCount := monthCount (resolved now s0) + 1\<rparr>
      else resolved now s0)"
  by (simp add: consumeRateLimit_def Let_def)

lemma resolved_live:
  "minuteWindowStart s \<noteq> 0 \<Longrightarrow> now - minuteWindowStart s < MINUTE_WINDOW_MS \<Longrightarrow>
   monthKey s = getMonthKey now \<Longrightarrow> resolved now s = s"
  by (simp add: ensureMinuteWindow_def ensureMonthWindow_def)

lemma resolved_idem: "resolved now (resolved now s) = resolved now s"
  by (simp add: ensureMonthWindow_def ensureMinuteWindow_def Let_def MINUTE_WINDOW_MS_def)

lemma consume_resolved: "consumeRateLimit now (resolved now s) = consumeRateLimit now s"
  by (simp only: consumeRateLimit_def resolved_idem)

lemma snapshot_state: "snd (rateLimitSnapshotHeaders now s) = resolved now s"
  by (simp add: rateLimitSnapshotHeaders_def Let_def)

lemma resolved_counts:
  "(minuteCount (resolved now s) = minuteCount s \<or> minuteCount (resolved now s) = 0) \<and>
   (monthCount (resolved now s) = monthCount s \<or> monthCount (resolved now s) = 0)"
  by (simp add: ensureMonthWindow_def ensureMinuteWindow_def Let_def)

lemma buildHeaders_no_retry_after:
  "map_of (buildHeaders s now a b) ''retry-after'' = None"
  by (simp add: buildHeaders_def Let_def)




lemma upt_Suc_shift: "[0..<Suc n] = 0 # map Suc [0..<n]"
  by (simp only: map_Suc_upt upt_conv_Cons [OF zero_less_Suc])

lemma remaining_minute_header:
  "map_of (buildHeaders s now a b) ''x-ratelimit-remaining-minute''
     = Some (js_String (max 0 (MAX_PER_MINUTE - a)))"
  by (simp add: buildHeaders_def Let_def)

lemma resolved_minute_live:
  "minuteWindowStart s \<noteq> 0 \<Longrightarrow> now - minuteWindowStart s < MINUTE_WINDOW_MS \<Longrightarrow>
   minuteWindowStart (resolved now s) = minuteWindowStart s
   \<and> minuteCount (resolved now s) = minuteCount s"
  by (simp add: ensureMinuteWindow_def ensureMonthWindow_def Let_def)

lemma resolved_minute_fresh:
  "minuteWindowStart s = 0 \<or> MINUTE_WINDOW_MS \<le> now - minuteWindowStart s \<Longrightarrow>
   minuteWindowStart (resolved now s) = now \<and> minuteCount (resolved now s) = 0"
  by (auto simp add: ensureMinuteWindow_def ensureMonthWindow_def Let_def)

lemma consume_allowed_step:
  assumes "minuteCount (resolved now s) < MAX_PER_MINUTE"
    and "0 \<le> monthCount s" and "monthCount s < MAX_PER_MONTH"
  shows "allowed (fst (consumeRateLimit now s))
    \<and> map_of (headers (fst (consumeRateLimit now s))) ''x-ratelimit-remaining-minute''
        = Some (js_String (max 0 (MAX_PER_MINUTE - (minuteCount (resolved now s) + 1))))
    \<and> minuteWindowStart (snd (consumeRateLimit now s)) = minuteWindowStart (resolved now s)
    \<and> minuteCount (snd (consumeRateLimit now s)) = minuteCount (resolved now s) + 1
    \<and> 0 \<le> monthCount (snd (consumeRateLimit now s))
    \<and> monthCount (snd (consumeRateLimit now s)) \<le> monthCount s + 1"
proof -
  from resolved_counts [of now s] assms(2,3)
  have m: "0 \<le> monthCount (resolved now s)" "monthCount (resolved now s) \<le> monthCount s"
    "monthCount (resolved now s) < MAX_PER_MONTH"
    by (auto simp: MAX_PER_MONTH_def)
  with assms(1) show ?thesis
    by (simp add: consumeRateLimit_def Let_def remaining_minute_header)
qed

lemma consume_each_in_window:
  assumes "minuteWindowStart s \<noteq> 0"
    and "\<forall>u \<in> set us. u - minuteWindowStart s < MINUTE_WINDOW_MS"
    and "minuteCount s = int k" and "k + length us \<le> 20"
    and "0 \<le> monthCount s" and "monthCount s + int (length us) \<le> MAX_PER_MONTH"
  shows "map (\<lambda>r. (allowed r, map_of (headers r) ''x-ratelimit-remaining-minute''))
           (consume_each us s)
         = map (\<lambda>i. (True, Some (js_String (19 - int k - int i)))) [0..<length us]"
  using assms
proof (induction us arbitrary: s k)
  case Nil
  then show ?case by simp
next
  case (Cons u us)
  obtain r s' where c: "consumeRateLimit u s = (r, s')"
    by (cases "consumeRateLimit u s")
  from Cons.prems have live: "minuteWindowStart (resolved u s) = minuteWindowStart s"
      "minuteCount (resolved u s) = int k"
    using resolved_minute_live [of s u] by simp_all
  from Cons.prems have k: "k < 20" by simp
  from Cons.prems have mo: "0 \<le> monthCount s" "monthCount s < MAX_PER_MONTH" by simp_all
  from live k have "minuteCount (resolved u s) < MAX_PER_MINUTE"
    by (simp add: MAX_PER_MINUTE_def)
  from consume_allowed_step [OF this mo] c live k
  have step: "allowed r"
    "map_of (headers r) ''x-ratelimit-remaining-minute'' = Some (js_String (19 - int k))"
    "minuteWindowStart s' = minuteWindowStart s" "minuteCount s' = int (Suc k)"
    "0 \<le> monthCount s'" "monthCount s' \<le> monthCount s + 1"
    by (simp_all add: MAX_PER_MINUTE_def)
  have "map (\<lambda>r. (allowed r, map_of (headers r) ''x-ratelimit-remaining-minute''))
           (consume_each us s')
         = map (\<lambda>i. (True, Some (js_String (19 - int (Suc k) - int i)))) [0..<length us]"
  proof (rule Cons.IH)
    show "minuteWindowStart s' \<noteq> 0" using step Cons.prems by simp
    show "\<forall>u \<in> set us. u - minuteWindowStart s' < MINUTE_WINDOW_MS"
      using step Cons.prems by simp
    show "minuteCount s' = int (Suc k)" by (rule step)
    show "Suc k + length us \<le> 20" using Cons.prems by simp
    show "0 \<le> monthCount s'" by (rule step)
    show "monthCount s' + int (length us) \<le> MAX_PER_MONTH"
      using step Cons.prems by simp
  qed
  moreover have "[0..<length (u # us)] = 0 # map Suc [0..<length us]"
    by (simp only: length_Cons upt_Suc_shift)
  ultimately show ?case
    using c step by (simp add: o_def algebra_simps)
qed

section \<open>Facts about the shared-store limiter\<close>

lemma kv_consume_minute_denied:
  "MAX_PER_MINUTE \<le> kv_currentMinuteCount now st \<Longrightarrow>
   kv_consumeRateLimit now st =
     (Denied (headers (fst (kv_consumeRateLimit now st))) Minute
        (Some (max 1 (ceilDiv1000 (kv_minuteWindowStart now st + MINUTE_WINDOW_MS - now)))), st)"
  by (simp add: kv_consumeRateLimit_def Let_def kv_currentMinuteCount_def kv_isMinuteExpired_def
      kv_minuteWindowStart_def)

lemma kv_consume_month_denied:
  "kv_currentMinuteCount now st < MAX_PER_MINUTE \<Longrightarrow>
   MAX_PER_MONTH \<le> kv_currentMonthCount now st \<Longrightarrow>
   kv_consumeRateLimit now st =
     (Denied (headers (fst (kv_consumeRateLimit now st))) Month None, st)"
  by (simp add: kv_consumeRateLimit_def Let_def kv_currentMinuteCount_def kv_isMinuteExpired_def
      kv_minuteWindowStart_def kv_currentMonthCount_def kv_monthKey_def)

lemma kv_consume_state:
  "snd (kv_consumeRateLimit now st) =
     (if allowed (fst (kv_consumeRateLimit now st))
      then kv_set_month (kv_monthKey now) (kv_currentMonthCount now st + 1)
             (floorDiv1000 (Date_UTC (getUTCFullYear now) (getUTCMonth now + 1)))
             (kv_set_minute now
                \<lparr>count = kv_currentMinuteCount now st + 1,
                 windowStart = (if kv_isMinuteExpired now st then now
                                else kv_minuteWindowStart now st)\<rparr> 60 st)
      else st)"
  by (simp add: kv_consumeRateLimit_def Let_def kv_currentMinuteCount_def kv_isMinuteExpired_def
      kv_minuteWindowStart_def kv_currentMonthCount_def kv_monthKey_def)

lemma kv_headers_no_retry_after:
  "map_of (headers (fst (kv_consumeRateLimit now st))) ''retry-after'' = None"
  by (simp add: kv_consumeRateLimit_def Let_def)

lemma kv_allowed_headers_before_increment:
  "allowed (fst (kv_consumeRateLimit now st)) \<Longrightarrow>
   map_of (headers (fst (kv_consumeRateLimit now st))) ''x-ratelimit-remaining-minute''
     = Some (js_String (minuteRemaining (fst (kv_consumeRateLimit now st)) + 1))"
  by (simp add: kv_consumeRateLimit_def Let_def MAX_PER_MINUTE_def split: if_splits)

section \<open>Facts about the routes\<close>

lemma GET_indices_limiter:
  "limiter (after (GET_indices tq tc tw fetch g)) = snd (consumeRateLimit tq (limiter g))"
  by (simp add: GET_indices_def Let_def split: prod.splits option.splits fetch_result.splits)

lemma GET_indices_frame:
  "kv (after (GET_indices tq tc tw fetch g)) = kv g"
  "performanceCache (after (GET_indices tq tc tw fetch g)) = performanceCache g"
  by (simp_all add: GET_indices_def Let_def split: prod.splits option.splits fetch_result.splits)

lemma GET_performance_frame:
  "limiter (after (GET_performance req tq tc tw fetch g)) = limiter g"
  "indicesCache (after (GET_performance req tq tc tw fetch g)) = indicesCache g"
  by (simp_all add: GET_performance_def Let_def split: prod.splits option.splits fetch_result.splits)

lemma GET_performance_reads:
  "kv g' = kv g \<Longrightarrow> performanceCache g' = performanceCache g \<Longrightarrow>
   reply (GET_performance req tq tc tw fetch g') = reply (GET_performance req tq tc tw fetch g)"
  by (simp add: GET_performance_def Let_def split: prod.splits option.splits fetch_result.splits)

lemma GET_indices_reads:
  "limiter g' = limiter g \<Longrightarrow> indicesCache g' = indicesCache g \<Longrightarrow>
   reply (GET_indices tq tc tw fetch g') = reply (GET_indices tq tc tw fetch g)"
  by (simp add: GET_indices_def Let_def split: prod.splits option.splits fetch_result.splits)

lemma GET_performance_kv:
  "id_param req = Some ident \<Longrightarrow> ident \<noteq> [] \<Longrightarrow>
   kv (after (GET_performance req tq tc tw fetch g)) = snd (kv_consumeRateLimit tq (kv g))"
  by (simp add: GET_performance_def Let_def split: prod.splits option.splits fetch_result.splits)

lemma GET_performance_denied:
  assumes "id_param req = Some ident" "ident \<noteq> []"
    and "\<not> allowed (fst (kv_consumeRateLimit tq (kv g)))"
  shows "reply (GET_performance req tq tc tw fetch g)
           = denied_response (fst (kv_consumeRateLimit tq (kv g)))"
proof -
  obtain r s where "kv_consumeRateLimit tq (kv g) = (r, s)"
    by (cases "kv_consumeRateLimit tq (kv g)")
  with assms show ?thesis by (simp add: GET_performance_def)
qed

text \<open>
  The statuses the handlers pass to \<^verbatim>\<open>NextResponse.json\<close> themselves (200, 400, 429)
  are accepted; of the statuses of a failed upstream call, those from 300 to 599 other
  than 304 are.
\<close>

lemma NextResponse_json_ok:
  "NextResponse_json b 200 hs = Inr \<lparr>nr_status = 200, nr_headers = hs, nr_body = b\<rparr>"
  "NextResponse_json b 400 hs = Inr \<lparr>nr_status = 400, nr_headers = hs, nr_body = b\<rparr>"
  "NextResponse_json b 429 hs = Inr \<lparr>nr_status = 429, nr_headers = hs, nr_body = b\<rparr>"
  by (simp_all add: NextResponse_json_def null_body_status_def)


text \<open>
  The protocol of a handler once \<^verbatim>\<open>consume()\<close> has allowed the request: a fresh entry
  is returned without a fetch; otherwise the upstream is fetched once, and its payload
  is written to the cache only when the upstream succeeded.
\<close>

lemma GET_indices_hit:
  assumes "allowed (fst (consumeRateLimit tq (limiter g)))"
    and "singleton_get tc (indicesCache g) = Some p"
  shows "reply (GET_indices tq tc tw fetch g)
           = Inr \<lparr>nr_status = 200,
                  nr_headers = headers (fst (consumeRateLimit tq (limiter g))), nr_body = p\<rparr>
         \<and> fetched (GET_indices tq tc tw fetch g) = []
         \<and> indicesCache (after (GET_indices tq tc tw fetch g)) = indicesCache g"
proof -
  obtain r s where "consumeRateLimit tq (limiter g) = (r, s)"
    by (cases "consumeRateLimit tq (limiter g)")
  with assms show ?thesis by (simp add: GET_indices_def Let_def NextResponse_json_ok)
qed

lemma GET_indices_success:
  assumes "allowed (fst (consumeRateLimit tq (limiter g)))"
    and "singleton_get tc (indicesCache g) = None"
    and "fetch API_URL = Response S (Some p)" and "ok (Response S (Some p))"
  shows "reply (GET_indices tq tc tw fetch g)
           = Inr \<lparr>nr_status = 200,
                  nr_headers = headers (fst (consumeRateLimit tq (limiter g))), nr_body = p\<rparr>
         \<and> fetched (GET_indices tq tc tw fetch g) = [API_URL]
         \<and> indicesCache (after (GET_indices tq tc tw fetch g))
             = singleton_put tw p (indicesCache g)"
proof -
  obtain r s where "consumeRateLimit tq (limiter g) = (r, s)"
    by (cases "consumeRateLimit tq (limiter g)")
  with assms show ?thesis by (simp add: GET_indices_def Let_def NextResponse_json_ok)
qed

lemma GET_performance_hit:
  assumes "id_param req = Some ident" "ident \<noteq> []"
    and "lim = (case limit_param req of Some l \<Rightarrow> l | None \<Rightarrow> ''50'')"
    and "page = (case page_param req of Some p \<Rightarrow> p | None \<Rightarrow> ''1'')"
    and "allowed (fst (kv_consumeRateLimit tq (kv g)))"
    and "keyed_get tc (performanceCache g (cache_key ident lim page)) = Some p"
  shows "reply (GET_performance req tq tc tw fetch g)
           = Inr \<lparr>nr_status = 200,
                  nr_headers = headers (fst (kv_consumeRateLimit tq (kv g))), nr_body = p\<rparr>
         \<and> fetched (GET_performance req tq tc tw fetch g) = []
         \<and> performanceCache (after (GET_performance req tq tc tw fetch g)) = performanceCache g"
proof -
  obtain r s where "kv_consumeRateLimit tq (kv g) = (r, s)"
    by (cases "kv_consumeRateLimit tq (kv g)")
  with assms show ?thesis by (simp add: GET_performance_def Let_def NextResponse_json_ok)
qed

lemma GET_performance_success:
  assumes "id_param req = Some ident" "ident \<noteq> []"
    and "lim = (case limit_param req of Some l \<Rightarrow> l | None \<Rightarrow> ''50'')"
    and "page = (case page_param req of Some p \<Rightarrow> p | None \<Rightarrow> ''1'')"
    and "allowed (fst (kv_consumeRateLimit tq (kv g)))"
    and "keyed_get tc (performanceCache g (cache_key ident lim page)) = None"
    and "fetch (performance_url ident lim page) = Response S (Some p)"
    and "ok (Response S (Some p))"
  shows "reply (GET_performance req tq tc tw fetch g)
           = Inr \<lparr>nr_status = 200,
                  nr_headers = headers (fst (kv_consumeRateLimit tq (kv g))), nr_body = p\<rparr>
         \<and> fetched (GET_performance req tq tc tw fetch g) = [performance_url ident lim page]
         \<and> performanceCache (after (GET_performance req tq tc tw fetch g))
             = keyed_put tw (cache_key ident lim page) p (performanceCache g)"
proof -
  obtain r s where "kv_consumeRateLimit tq (kv g) = (r, s)"
    by (cases "kv_consumeRateLimit tq (kv g)")
  with assms show ?thesis by (simp add: GET_performance_def Let_def NextResponse_json_ok)
qed



lemma falsy_refetch:
  "allowed (fst (consumeRateLimit tq (limiter g))) \<Longrightarrow> \<not> truthy (data (indicesCache g)) \<Longrightarrow>
   fetched (GET_indices tq tc tw fetch g) = [API_URL]"
  by (cases "consumeRateLimit tq (limiter g)")
     (simp add: GET_indices_def Let_def singleton_get_def
        split: fetch_result.splits option.splits)

lemma split_at_first:
  "c \<notin> set x \<Longrightarrow> c \<notin> set y \<Longrightarrow> x @ c # r = y @ c # r' \<Longrightarrow> x = y \<and> r = r'"
proof (induction x arbitrary: y)
  case Nil
  then show ?case by (cases y) auto
next
  case (Cons a x)
  then show ?case by (cases y) auto
qed

section \<open>The claims\<close>

subsection \<open>C1: the first twenty calls of a window\<close>

text \<open>
  The local-memory limiter, started with no window or an expired one at a clock
  reading \<open>t > 0\<close>, and with room in the month for the calls made: up to 20 calls within
  the window opened at \<open>t\<close> are all allowed, and call number \<open>i\<close> (from 0) carries
  \<^verbatim>\<open>x-ratelimit-remaining-minute\<close> = \<open>19 - i\<close>, the count after its own increment.
\<close>

theorem local_first_calls:
  assumes fresh: "minuteWindowStart s0 = 0 \<or> MINUTE_WINDOW_MS \<le> t - minuteWindowStart s0"
    and pos: "0 < t"
    and window: "\<forall>u \<in> set rest. t \<le> u \<and> u - t < MINUTE_WINDOW_MS"
    and len: "length (t # rest) \<le> 20"
    and month: "0 \<le> monthCount s0" "monthCount s0 + int (length (t # rest)) \<le> MAX_PER_MONTH"
  shows "map (\<lambda>r. (allowed r, map_of (headers r) ''x-ratelimit-remaining-minute''))
           (consume_each (t # rest) s0)
         = map (\<lambda>i. (True, Some (js_String (19 - int i)))) [0..<length (t # rest)]"
proof -
  obtain r s' where c: "consumeRateLimit t s0 = (r, s')"
    by (cases "consumeRateLimit t s0")
  from fresh have f: "minuteWindowStart (resolved t s0) = t" "minuteCount (resolved t s0) = 0"
    using resolved_minute_fresh [of s0 t] by simp_all
  from month have mo: "0 \<le> monthCount s0" "monthCount s0 < MAX_PER_MONTH" by simp_all
  from f have "minuteCount (resolved t s0) < MAX_PER_MINUTE"
    by (simp add: MAX_PER_MINUTE_def)
  from consume_allowed_step [OF this mo] c f
  have step: "allowed r"
    "map_of (headers r) ''x-ratelimit-remaining-minute'' = Some (js_String 19)"
    "minuteWindowStart s' = t" "minuteCount s' = int 1"
    "0 \<le> monthCount s'" "monthCount s' \<le> monthCount s0 + 1"
    by (simp_all add: MAX_PER_MINUTE_def)
  have "map (\<lambda>r. (allowed r, map_of (headers r) ''x-ratelimit-remaining-minute''))
           (consume_each rest s')
         = map (\<lambda>i. (True, Some (js_String (19 - int 1 - int i)))) [0..<length rest]"
  proof (rule consume_each_in_window)
    show "minuteWindowStart s' \<noteq> 0" using step pos by simp
    show "\<forall>u \<in> set rest. u - minuteWindowStart s' < MINUTE_WINDOW_MS"
      using step window by simp
    show "minuteCount s' = int 1" by (rule step)
    show "1 + length rest \<le> 20" using len by simp
    show "0 \<le> monthCount s'" by (rule step)
    show "monthCount s' + int (length rest) \<le> MAX_PER_MONTH"
      using step month by simp
  qed
  moreover have "[0..<length (t # rest)] = 0 # map Suc [0..<length rest]"
    by (simp only: length_Cons upt_Suc_shift)
  ultimately show ?thesis
    using c step by (simp add: o_def algebra_simps)
qed

text \<open>Twenty calls at one instant on the initial state are such a run.\<close>

theorem local_first_calls_initial:
  "map (\<lambda>r. (allowed r, map_of (headers r) ''x-ratelimit-remaining-minute''))
     (consume_each (replicate 20 1700000000000) initial_limiter)
   = map (\<lambda>i. (True, Some (js_String (19 - int i)))) [0..<20]"
proof -
  have r: "replicate 20 (1700000000000::int) = 1700000000000 # replicate 19 1700000000000"
    by (simp add: numeral_eq_Suc)
  have "map (\<lambda>r. (allowed r, map_of (headers r) ''x-ratelimit-remaining-minute''))
     (consume_each (1700000000000 # replicate 19 1700000000000) initial_limiter)
   = map (\<lambda>i. (True, Some (js_String (19 - int i))))
       [0..<length (1700000000000 # replicate 19 (1700000000000::int))]"
    by (rule local_first_calls)
       (simp_all add: initial_limiter_def MINUTE_WINDOW_MS_def MAX_PER_MONTH_def)
  then show ?thesis by (simp only: r length_Cons length_replicate) simp
qed

text \<open>
  C1 says that from a fresh counter state the first 20 \<^verbatim>\<open>consume()\<close> calls of one
  rolling window are all allowed and that \<^verbatim>\<open>x-ratelimit-remaining-minute\<close> on each
  allowed result is the count after the increment: 19 on the first call, 0 on the 20th.
  The shared-store limiter builds its headers from the counts it read, before it
  increments them, and returns those headers on the allowed branch too. Its first call
  on an empty store, at 1700000000000 ms, is allowed with \<^verbatim>\<open>minuteRemaining\<close> 19 and
  \<^verbatim>\<open>monthRemaining\<close> 499 in the result, and with the headers
  \<^verbatim>\<open>x-ratelimit-remaining-minute\<close> = 20 and \<^verbatim>\<open>x-ratelimit-remaining-month\<close> = 500;
  the store then holds the minute count 1. On every allowed result of this limiter the
  header is one above the \<^verbatim>\<open>minuteRemaining\<close> field of the same result.
\<close>

theorem C1_shared_store_headers_precede_increment:
  "fst (kv_consumeRateLimit 1700000000000 empty_kv) =
     Allowed [(''x-ratelimit-limit-minute'', ''20''),
              (''x-ratelimit-remaining-minute'', ''20''),
              (''x-ratelimit-reset-minute'', ''1700000060''),
              (''x-ratelimit-limit-month'', ''500''),
              (''x-ratelimit-remaining-month'', ''500''),
              (''x-ratelimit-reset-month'', ''1701388800'')] 19 499
   \<and> kv_get_minute 1700000000000 (snd (kv_consumeRateLimit 1700000000000 empty_kv))
       = Some \<lparr>count = 1, windowStart = 1700000000000\<rparr>
   \<and> (allowed (fst (kv_consumeRateLimit now st)) \<longrightarrow>
        map_of (headers (fst (kv_consumeRateLimit now st))) ''x-ratelimit-remaining-minute''
          = Some (js_String (minuteRemaining (fst (kv_consumeRateLimit now st)) + 1)))"
proof (intro conjI impI)
  show "fst (kv_consumeRateLimit 1700000000000 empty_kv) =
     Allowed [(''x-ratelimit-limit-minute'', ''20''),
              (''x-ratelimit-remaining-minute'', ''20''),
              (''x-ratelimit-reset-minute'', ''1700000060''),
              (''x-ratelimit-limit-month'', ''500''),
              (''x-ratelimit-remaining-month'', ''500''),
              (''x-ratelimit-reset-month'', ''1701388800'')] 19 499"
    by code_simp
  show "kv_get_minute 1700000000000 (snd (kv_consumeRateLimit 1700000000000 empty_kv))
       = Some \<lparr>count = 1, windowStart = 1700000000000\<rparr>"
    by code_simp
next
  assume "allowed (fst (kv_consumeRateLimit now st))"
  then show "map_of (headers (fst (kv_consumeRateLimit now st))) ''x-ratelimit-remaining-minute''
          = Some (js_String (minuteRemaining (fst (kv_consumeRateLimit now st)) + 1))"
    by (rule kv_allowed_headers_before_increment)
qed

theorem C1_shared_store_headers_precede_increment_witness:
  "allowed (fst (kv_consumeRateLimit 1700000000000 empty_kv))
   \<and> map_of (headers (fst (kv_consumeRateLimit 1700000000000 empty_kv)))
        ''x-ratelimit-remaining-minute''
      = Some (js_String (minuteRemaining (fst (kv_consumeRateLimit 1700000000000 empty_kv)) + 1))"
proof -
  have h: "allowed (fst (kv_consumeRateLimit 1700000000000 empty_kv))"
    by code_simp
  from h C1_shared_store_headers_precede_increment [of 1700000000000 empty_kv, THEN conjunct2, THEN conjunct2]
  have "map_of (headers (fst (kv_consumeRateLimit 1700000000000 empty_kv)))
        ''x-ratelimit-remaining-minute''
      = Some (js_String (minuteRemaining (fst (kv_consumeRateLimit 1700000000000 empty_kv)) + 1))"
    by (rule rev_mp)
  with h show ?thesis by (rule conjI)
qed

subsection \<open>C2: the retry-after of a minute denial\<close>




subsection \<open>C3: quota is spent once per allowed request\<close>

text \<open>
  C3 as stated has a denying \<^verbatim>\<open>consume()\<close> leave both counters unchanged. Window
  resolution runs before the caps are tested and writes the module variables. After 20
  calls in the last second of November 2023 the month count is 20; a call 700 ms later,
  in December, is denied (reason \<^verbatim>\<open>minute\<close>) and leaves the month count at 0. With 3
  calls counted in a window opened at 1700000000000 ms and the month cap reached, a
  call at 1700000070000 ms is denied (reason \<^verbatim>\<open>month\<close>) and leaves the minute count
  at 0; so does the route, which answers 429.
\<close>

theorem C3_counterexample:
  "\<not> allowed (fst (consumeRateLimit 1701388800200 month_end_state))
   \<and> monthCount month_end_state = 20
   \<and> monthCount (snd (consumeRateLimit 1701388800200 month_end_state)) = 0
   \<and> \<not> allowed (fst (consumeRateLimit 1700000070000 month_cap_state))
   \<and> minuteCount month_cap_state = 3
   \<and> minuteCount (snd (consumeRateLimit 1700000070000 month_cap_state)) = 0
   \<and> minuteCount (limiter (after (GET_indices 1700000070000 1700000070001 1700000070002
        upstream_503 month_cap_server))) = 0"
  by code_simp

text \<open>
  C3, amended. A request to the parameterless route leaves the local limiter exactly as
  its one \<^verbatim>\<open>consumeRateLimit()\<close> call leaves it, and a request to the parameterized
  route (with an \<open>id\<close>) leaves the store exactly as its one call leaves it, whatever the
  cache holds and whatever the upstream answers (cache hit, miss with upstream success,
  upstream failure). In the local limiter an allowing call leaves both counters one
  above their resolved values and a denying call leaves the state as resolved, with no
  increment; the resolved state is the stored state whenever the minute window is live
  and the month key is current. In the shared-store limiter an allowing call writes
  both records with the counts it read plus one and a denying call writes nothing.
\<close>

theorem C3_quota_spent_once:
  "limiter (after (GET_indices tq tc tw fetch g)) = snd (consumeRateLimit tq (limiter g))
   \<and> snd (consumeRateLimit tq s0) =
       (if allowed (fst (consumeRateLimit tq s0))
        then (resolved tq s0)\<lparr>minuteCount := minuteCount (resolved tq s0) + 1,
                                monthCount := monthCount (resolved tq s0) + 1\<rparr>
        else resolved tq s0)
   \<and> (minuteWindowStart s0 \<noteq> 0 \<and> tq - minuteWindowStart s0 < MINUTE_WINDOW_MS
        \<and> monthKey s0 = getMonthKey tq \<longrightarrow> resolved tq s0 = s0)
   \<and> (id_param req = Some ident \<and> ident \<noteq> [] \<longrightarrow>
        kv (after (GET_performance req tq tc tw fetch g)) = snd (kv_consumeRateLimit tq (kv g)))
   \<and> snd (kv_consumeRateLimit tq st) =
       (if allowed (fst (kv_consumeRateLimit tq st))
        then kv_set_month (kv_monthKey tq) (kv_currentMonthCount tq st + 1)
               (floorDiv1000 (Date_UTC (getUTCFullYear tq) (getUTCMonth tq + 1)))
               (kv_set_minute tq
                  \<lparr>count = kv_currentMinuteCount tq st + 1,
                   windowStart = (if kv_isMinuteExpired tq st then tq
                                  else kv_minuteWindowStart tq st)\<rparr> 60 st)
        else st)"
proof (intro conjI impI)
  show "limiter (after (GET_indices tq tc tw fetch g)) = snd (consumeRateLimit tq (limiter g))"
    by (rule GET_indices_limiter)
  show "snd (consumeRateLimit tq s0) =
       (if allowed (fst (consumeRateLimit tq s0))
        then (resolved tq s0)\<lparr>minuteCount := minuteCount (resolved tq s0) + 1,
                                monthCount := monthCount (resolved tq s0) + 1\<rparr>
        else resolved tq s0)"
    by (rule consume_state)
  show "snd (kv_consumeRateLimit tq st) =
       (if allowed (fst (kv_consumeRateLimit tq st))
        then kv_set_month (kv_monthKey tq) (kv_currentMonthCount tq st + 1)
               (floorDiv1000 (Date_UTC (getUTCFullYear tq) (getUTCMonth tq + 1)))
               (kv_set_minute tq
                  \<lparr>count = kv_currentMinuteCount tq st + 1,
                   windowStart = (if kv_isMinuteExpired tq st then tq
                                  else kv_minuteWindowStart tq st)\<rparr> 60 st)
        else st)"
    by (rule kv_consume_state)
next
  assume "minuteWindowStart s0 \<noteq> 0 \<and> tq - minuteWindowStart s0 < MINUTE_WINDOW_MS
        \<and> monthKey s0 = getMonthKey tq"
  then show "resolved tq s0 = s0"
    by (elim conjE) (rule resolved_live; assumption)
next
  assume "id_param req = Some ident \<and> ident \<noteq> []"
  then show "kv (after (GET_performance req tq tc tw fetch g)) = snd (kv_consumeRateLimit tq (kv g))"
    by (elim conjE) (rule GET_performance_kv; assumption)
qed

theorem C3_quota_spent_once_witness:
  "((minuteWindowStart live_state \<noteq> 0
      \<and> 1700000001000 - minuteWindowStart live_state < MINUTE_WINDOW_MS
      \<and> monthKey live_state = getMonthKey 1700000001000)
    \<and> (id_param request_1 = Some ''1'' \<and> ''1'' \<noteq> []))
   \<and> resolved 1700000001000 live_state = live_state
   \<and> kv (after (GET_performance request_1 1700000001000 1700000001001 1700000001002
                  upstream_503 initial_server))
       = snd (kv_consumeRateLimit 1700000001000 (kv initial_server))"
proof -
  have h1: "minuteWindowStart live_state \<noteq> 0
           \<and> 1700000001000 - minuteWindowStart live_state < MINUTE_WINDOW_MS
           \<and> monthKey live_state = getMonthKey 1700000001000"
    by code_simp
  have h2: "id_param request_1 = Some ''1'' \<and> ''1'' \<noteq> []"
    by code_simp
  note t = C3_quota_spent_once [of 1700000001000 1700000001001 1700000001002 upstream_503 initial_server
      live_state request_1 "''1''"]
  from h1 t [THEN conjunct2, THEN conjunct2, THEN conjunct1]
  have c1: "resolved 1700000001000 live_state = live_state"
    by (rule rev_mp)
  from h2 t [THEN conjunct2, THEN conjunct2, THEN conjunct2, THEN conjunct1]
  have c2: "kv (after (GET_performance request_1 1700000001000 1700000001001 1700000001002
                  upstream_503 initial_server))
       = snd (kv_consumeRateLimit 1700000001000 (kv initial_server))"
    by (rule rev_mp)
  from h1 h2 have "(minuteWindowStart live_state \<noteq> 0
      \<and> 1700000001000 - minuteWindowStart live_state < MINUTE_WINDOW_MS
      \<and> monthKey live_state = getMonthKey 1700000001000)
    \<and> (id_param request_1 = Some ''1'' \<and> ''1'' \<noteq> [])"
    by (rule conjI)
  with c1 c2 show ?thesis by (intro conjI) (elim conjE, assumption)+
qed

subsection \<open>C4: one counter state for both routes\<close>

text \<open>
  C4 says that an allowed request on one upstream-backed route lowers the remaining
  quota seen by later requests on the other. The parameterless route calls the
  local-memory limiter and the parameterized route calls the shared-store limiter, and
  neither handler touches the other's counters: the reply of either route is the same
  whether or not a request to the other route came first.
\<close>

theorem C4_routes_use_separate_quota_state:
  "reply (GET_performance req tq' tc' tw' fetch' (after (GET_indices tq tc tw fetch g)))
     = reply (GET_performance req tq' tc' tw' fetch' g)
   \<and> kv (after (GET_indices tq tc tw fetch g)) = kv g
   \<and> reply (GET_indices tq' tc' tw' fetch' (after (GET_performance req tq tc tw fetch g)))
     = reply (GET_indices tq' tc' tw' fetch' g)
   \<and> limiter (after (GET_performance req tq tc tw fetch g)) = limiter g"
proof (intro conjI)
  show "reply (GET_performance req tq' tc' tw' fetch' (after (GET_indices tq tc tw fetch g)))
     = reply (GET_performance req tq' tc' tw' fetch' g)"
    by (rule GET_performance_reads) (rule GET_indices_frame)+
  show "kv (after (GET_indices tq tc tw fetch g)) = kv g"
    by (rule GET_indices_frame)
  show "reply (GET_indices tq' tc' tw' fetch' (after (GET_performance req tq tc tw fetch g)))
     = reply (GET_indices tq' tc' tw' fetch' g)"
    by (rule GET_indices_reads) (rule GET_performance_frame)+
  show "limiter (after (GET_performance req tq tc tw fetch g)) = limiter g"
    by (rule GET_performance_frame)
qed

subsection \<open>C5: a read after a write\<close>

text \<open>
  C5 as stated returns every payload written less than 60000 ms ago. The singleton
  slot of the parameterless route is read through \<^verbatim>\<open>CACHE.data && ...\<close>: the payload
  \<^verbatim>\<open>null\<close>, written at 1700000000000 ms, is a miss one second later.
\<close>

theorem C5_counterexample:
  "1700000001000 - 1700000000000 < HOT_CACHE_TTL_MS
   \<and> singleton_get 1700000001000
        (singleton_put 1700000000000 JNull (indicesCache initial_server)) = None"
  by code_simp

text \<open>
  C5, amended. The TTL is 60000 ms. In the keyed cache, a read of \<open>key\<close> at \<open>now\<close> after
  a write of \<open>payload\<close> under \<open>key\<close> at \<open>storedAt\<close> returns exactly \<open>payload\<close> if
  \<open>now - storedAt < 60000\<close> and is a miss otherwise. In the singleton cache the read
  returns \<open>payload\<close> if \<open>now - storedAt < 60000\<close> and the payload is truthy, and is a miss
  otherwise. A read changes nothing; a write replaces the entry and stamps it with the
  time of the write.
\<close>

theorem C5_get_after_put:
  "HOT_CACHE_TTL_MS = 60000
   \<and> keyed_get now ((keyed_put storedAt key payload m) key) =
       (if now - storedAt < HOT_CACHE_TTL_MS then Some payload else None)
   \<and> singleton_get now (singleton_put storedAt payload c) =
       (if truthy payload \<and> now - storedAt < HOT_CACHE_TTL_MS then Some payload else None)
   \<and> (keyed_put storedAt key payload m) key = Some \<lparr>data = payload, ts = storedAt\<rparr>
   \<and> singleton_put storedAt payload c = \<lparr>data = payload, ts = storedAt\<rparr>"
  by (simp add: keyed_get_def keyed_put_def singleton_get_def singleton_put_def
      HOT_CACHE_TTL_MS_def)

subsection \<open>C6: an upstream failure\<close>




subsection \<open>C7: the keyed cache key\<close>

text \<open>
  C7 as stated makes the key an injective function of \<open>(id, limit, page)\<close>. The three
  values are concatenated unescaped, and \<open>id\<close> and \<open>limit\<close> are arbitrary query strings:
  \<open>id = "a:limit:b", limit = "c"\<close> and \<open>id = "a", limit = "b:limit:c"\<close> give the same key
  with \<open>page = "1"\<close>.
\<close>

theorem C7_counterexample:
  "(''a:limit:b'', ''c'', ''1'') \<noteq> (''a'', ''b:limit:c'', ''1'')
   \<and> cache_key ''a:limit:b'' ''c'' ''1'' = cache_key ''a'' ''b:limit:c'' ''1''"
  by (simp add: cache_key_def)

text \<open>
  C7, amended. The key is \<^verbatim>\<open>id:<id>:limit:<limit>:page:<page>\<close>. On requests whose
  \<open>id\<close> and \<open>limit\<close> contain no colon the mapping is injective: two such requests with
  different \<open>(id, limit, page)\<close> have different keys, and a write under one key leaves
  the entry under the other as it was.
\<close>

theorem C7_key_injective:
  "cache_key ident lim page = ''id:'' @ ident @ '':limit:'' @ lim @ '':page:'' @ page
   \<and> (CHR '':'' \<notin> set id1 \<and> CHR '':'' \<notin> set lim1 \<and> CHR '':'' \<notin> set id2 \<and> CHR '':'' \<notin> set lim2
        \<and> (id1, lim1, page1) \<noteq> (id2, lim2, page2) \<longrightarrow>
      cache_key id1 lim1 page1 \<noteq> cache_key id2 lim2 page2
      \<and> (keyed_put now (cache_key id1 lim1 page1) payload m) (cache_key id2 lim2 page2)
          = m (cache_key id2 lim2 page2))"
proof (intro conjI impI)
  show "cache_key ident lim page = ''id:'' @ ident @ '':limit:'' @ lim @ '':page:'' @ page"
    by (simp add: cache_key_def)
next
  assume h: "CHR '':'' \<notin> set id1 \<and> CHR '':'' \<notin> set lim1 \<and> CHR '':'' \<notin> set id2
      \<and> CHR '':'' \<notin> set lim2 \<and> (id1, lim1, page1) \<noteq> (id2, lim2, page2)"
  show ne: "cache_key id1 lim1 page1 \<noteq> cache_key id2 lim2 page2"
  proof
    assume "cache_key id1 lim1 page1 = cache_key id2 lim2 page2"
    then have e: "id1 @ CHR '':'' # (''limit:'' @ lim1 @ '':page:'' @ page1)
                = id2 @ CHR '':'' # (''limit:'' @ lim2 @ '':page:'' @ page2)"
      by (simp add: cache_key_def)
    from h have "CHR '':'' \<notin> set id1" "CHR '':'' \<notin> set id2" by simp_all
    from split_at_first [OF this e]
    have i: "id1 = id2"
      and r: "lim1 @ CHR '':'' # (''page:'' @ page1) = lim2 @ CHR '':'' # (''page:'' @ page2)"
      by simp_all
    from h have "CHR '':'' \<notin> set lim1" "CHR '':'' \<notin> set lim2" by simp_all
    from split_at_first [OF this r] have "lim1 = lim2" "page1 = page2" by simp_all
    with i h show False by simp
  qed
  then show "(keyed_put now (cache_key id1 lim1 page1) payload m) (cache_key id2 lim2 page2)
          = m (cache_key id2 lim2 page2)"
    by (simp add: keyed_put_def)
qed

theorem C7_key_injective_witness:
  "(CHR '':'' \<notin> set ''1'' \<and> CHR '':'' \<notin> set ''50'' \<and> CHR '':'' \<notin> set ''2''
     \<and> CHR '':'' \<notin> set ''50'' \<and> (''1'', ''50'', ''1'') \<noteq> (''2'', ''50'', ''1''))
   \<and> cache_key ''1'' ''50'' ''1'' \<noteq> cache_key ''2'' ''50'' ''1''
   \<and> (keyed_put 1700000000000 (cache_key ''1'' ''50'' ''1'') JNull Map.empty)
        (cache_key ''2'' ''50'' ''1'') = Map.empty (cache_key ''2'' ''50'' ''1'')"
proof -
  have h: "CHR '':'' \<notin> set ''1'' \<and> CHR '':'' \<notin> set ''50'' \<and> CHR '':'' \<notin> set ''2''
     \<and> CHR '':'' \<notin> set ''50'' \<and> (''1'', ''50'', ''1'') \<noteq> (''2'', ''50'', ''1'')"
    by simp
  from h C7_key_injective [of "''1''" "''50''" "''1''" "''1''" "''50''" "''2''" "''50''" "''1''"
        "''1''" 1700000000000 JNull Map.empty, THEN conjunct2]
  have "cache_key ''1'' ''50'' ''1'' \<noteq> cache_key ''2'' ''50'' ''1''
   \<and> (keyed_put 1700000000000 (cache_key ''1'' ''50'' ''1'') JNull Map.empty)
        (cache_key ''2'' ''50'' ''1'') = Map.empty (cache_key ''2'' ''50'' ''1'')"
    by (rule rev_mp)
  with h show ?thesis by (rule conjI)
qed

subsection \<open>C8: which cap a denial reports\<close>

text \<open>
  C8. When both the minute count and the month count that \<^verbatim>\<open>consume()\<close> resolves have
  reached their caps, it denies with reason \<^verbatim>\<open>minute\<close>. When only the month cap is
  reached, it denies with reason \<^verbatim>\<open>month\<close> and no \<^verbatim>\<open>retryAfterSeconds\<close>, and the
  route answers 429 with no \<^verbatim>\<open>retry-after\<close> header. This holds for the local-memory
  limiter with the parameterless route and for the shared-store limiter with the
  parameterized route.
\<close>

theorem C8_denial_priority:
  "(MAX_PER_MINUTE \<le> minuteCount (resolved now s0) \<and> MAX_PER_MONTH \<le> monthCount (resolved now s0)
      \<longrightarrow> \<not> allowed (fst (consumeRateLimit now s0))
          \<and> reason (fst (consumeRateLimit now s0)) = Minute)
   \<and> (minuteCount (resolved now s0) < MAX_PER_MINUTE \<and> MAX_PER_MONTH \<le> monthCount (resolved now s0)
      \<longrightarrow> \<not> allowed (fst (consumeRateLimit now s0))
          \<and> reason (fst (consumeRateLimit now s0)) = Month
          \<and> retryAfterSeconds (fst (consumeRateLimit now s0)) = None
          \<and> (limiter g = s0 \<longrightarrow>
               (\<exists>r. reply (GET_indices now tc tw fetch g) = Inr r \<and> nr_status r = 429
                    \<and> map_of (nr_headers r) ''retry-after'' = None)))
   \<and> (MAX_PER_MINUTE \<le> kv_currentMinuteCount now st \<and> MAX_PER_MONTH \<le> kv_currentMonthCount now st
      \<longrightarrow> \<not> allowed (fst (kv_consumeRateLimit now st))
          \<and> reason (fst (kv_consumeRateLimit now st)) = Minute)
   \<and> (kv_currentMinuteCount now st < MAX_PER_MINUTE \<and> MAX_PER_MONTH \<le> kv_currentMonthCount now st
      \<longrightarrow> \<not> allowed (fst (kv_consumeRateLimit now st))
          \<and> reason (fst (kv_consumeRateLimit now st)) = Month
          \<and> retryAfterSeconds (fst (kv_consumeRateLimit now st)) = None
          \<and> (kv g = st \<and> id_param req = Some ident \<and> ident \<noteq> [] \<longrightarrow>
               (\<exists>r. reply (GET_performance req now tc tw fetch g) = Inr r \<and> nr_status r = 429
                    \<and> map_of (nr_headers r) ''retry-after'' = None)))"
proof (intro conjI impI)
  assume "MAX_PER_MINUTE \<le> minuteCount (resolved now s0)
            \<and> MAX_PER_MONTH \<le> monthCount (resolved now s0)"
  then show "\<not> allowed (fst (consumeRateLimit now s0))"
    and "reason (fst (consumeRateLimit now s0)) = Minute"
    by (simp_all add: consume_minute_denied)
next
  assume h: "minuteCount (resolved now s0) < MAX_PER_MINUTE
            \<and> MAX_PER_MONTH \<le> monthCount (resolved now s0)"
  then show "\<not> allowed (fst (consumeRateLimit now s0))"
    and "reason (fst (consumeRateLimit now s0)) = Month"
    and "retryAfterSeconds (fst (consumeRateLimit now s0)) = None"
    by (simp_all add: consume_month_denied)
  assume "limiter g = s0"
  with h show "\<exists>r. reply (GET_indices now tc tw fetch g) = Inr r \<and> nr_status r = 429
                    \<and> map_of (nr_headers r) ''retry-after'' = None"
    by (simp add: consume_month_denied GET_indices_def denied_response_def
        NextResponse_json_ok buildHeaders_no_retry_after)
next
  assume "MAX_PER_MINUTE \<le> kv_currentMinuteCount now st
            \<and> MAX_PER_MONTH \<le> kv_currentMonthCount now st"
  then have m: "MAX_PER_MINUTE \<le> kv_currentMinuteCount now st" by simp
  show "\<not> allowed (fst (kv_consumeRateLimit now st))"
    by (subst kv_consume_minute_denied [OF m]) simp
  show "reason (fst (kv_consumeRateLimit now st)) = Minute"
    by (subst kv_consume_minute_denied [OF m]) simp
next
  assume h: "kv_currentMinuteCount now st < MAX_PER_MINUTE
            \<and> MAX_PER_MONTH \<le> kv_currentMonthCount now st"
  then have c: "kv_consumeRateLimit now st =
     (Denied (headers (fst (kv_consumeRateLimit now st))) Month None, st)"
    by (elim conjE) (rule kv_consume_month_denied; assumption)
  show d: "\<not> allowed (fst (kv_consumeRateLimit now st))"
    by (subst c) simp
  show r: "reason (fst (kv_consumeRateLimit now st)) = Month"
    by (subst c) simp
  show n: "retryAfterSeconds (fst (kv_consumeRateLimit now st)) = None"
    by (subst c) simp
  assume g: "kv g = st \<and> id_param req = Some ident \<and> ident \<noteq> []"
  with d have "reply (GET_performance req now tc tw fetch g)
           = denied_response (fst (kv_consumeRateLimit now st))"
    using GET_performance_denied [of req ident now g tc tw fetch] by simp
  with r n show "\<exists>r. reply (GET_performance req now tc tw fetch g) = Inr r \<and> nr_status r = 429
                    \<and> map_of (nr_headers r) ''retry-after'' = None"
    by (simp add: denied_response_def NextResponse_json_ok kv_headers_no_retry_after)
qed

theorem C8_denial_priority_witness:
  "((MAX_PER_MINUTE \<le> minuteCount (resolved 1700000001000 both_caps_state)
      \<and> MAX_PER_MONTH \<le> monthCount (resolved 1700000001000 both_caps_state))
    \<and> (minuteCount (resolved 1700000001000 month_cap_state) < MAX_PER_MINUTE
      \<and> MAX_PER_MONTH \<le> monthCount (resolved 1700000001000 month_cap_state))
    \<and> limiter month_cap_server = month_cap_state
    \<and> (MAX_PER_MINUTE \<le> kv_currentMinuteCount 1700000001000 both_caps_store
      \<and> MAX_PER_MONTH \<le> kv_currentMonthCount 1700000001000 both_caps_store)
    \<and> (kv_currentMinuteCount 1700000001000 month_cap_store < MAX_PER_MINUTE
      \<and> MAX_PER_MONTH \<le> kv_currentMonthCount 1700000001000 month_cap_store)
    \<and> (kv month_cap_server = month_cap_store \<and> id_param request_1 = Some ''1'' \<and> ''1'' \<noteq> []))
   \<and> reason (fst (consumeRateLimit 1700000001000 both_caps_state)) = Minute
   \<and> (reason (fst (consumeRateLimit 1700000001000 month_cap_state)) = Month
      \<and> retryAfterSeconds (fst (consumeRateLimit 1700000001000 month_cap_state)) = None
      \<and> (\<exists>r. reply (GET_indices 1700000001000 1700000001001 1700000001002 upstream_503
                       month_cap_server) = Inr r
              \<and> nr_status r = 429 \<and> map_of (nr_headers r) ''retry-after'' = None))
   \<and> reason (fst (kv_consumeRateLimit 1700000001000 both_caps_store)) = Minute
   \<and> (reason (fst (kv_consumeRateLimit 1700000001000 month_cap_store)) = Month
      \<and> retryAfterSeconds (fst (kv_consumeRateLimit 1700000001000 month_cap_store)) = None
      \<and> (\<exists>r. reply (GET_performance request_1 1700000001000 1700000001001 1700000001002
                       upstream_503 month_cap_server) = Inr r
              \<and> nr_status r = 429 \<and> map_of (nr_headers r) ''retry-after'' = None))"
proof -
  have h1: "MAX_PER_MINUTE \<le> minuteCount (resolved 1700000001000 both_caps_state)
      \<and> MAX_PER_MONTH \<le> monthCount (resolved 1700000001000 both_caps_state)"
    by code_simp
  have h2: "minuteCount (resolved 1700000001000 month_cap_state) < MAX_PER_MINUTE
      \<and> MAX_PER_MONTH \<le> monthCount (resolved 1700000001000 month_cap_state)"
    by code_simp
  have h3: "limiter month_cap_server = month_cap_state"
    by (simp add: month_cap_server_def)
  have h4: "MAX_PER_MINUTE \<le> kv_currentMinuteCount 1700000001000 both_caps_store
      \<and> MAX_PER_MONTH \<le> kv_currentMonthCount 1700000001000 both_caps_store"
    by code_simp
  have h5: "kv_currentMinuteCount 1700000001000 month_cap_store < MAX_PER_MINUTE
      \<and> MAX_PER_MONTH \<le> kv_currentMonthCount 1700000001000 month_cap_store"
    by code_simp
  have h6: "kv month_cap_server = month_cap_store \<and> id_param request_1 = Some ''1''
      \<and> ''1'' \<noteq> []"
    by (simp add: month_cap_server_def request_1_def)
  note a = C8_denial_priority [of 1700000001000 both_caps_state month_cap_server 1700000001001
      1700000001002 upstream_503 both_caps_store request_1 "''1''"]
  note b = C8_denial_priority [of 1700000001000 month_cap_state month_cap_server 1700000001001
      1700000001002 upstream_503 month_cap_store request_1 "''1''"]
  from h1 a [THEN conjunct1]
  have c1: "reason (fst (consumeRateLimit 1700000001000 both_caps_state)) = Minute"
    by (rule rev_mp [THEN conjunct2])
  from h2 b [THEN conjunct2, THEN conjunct1]
  have c2: "\<not> allowed (fst (consumeRateLimit 1700000001000 month_cap_state))
      \<and> reason (fst (consumeRateLimit 1700000001000 month_cap_state)) = Month
      \<and> retryAfterSeconds (fst (consumeRateLimit 1700000001000 month_cap_state)) = None
      \<and> (limiter month_cap_server = month_cap_state \<longrightarrow>
           (\<exists>r. reply (GET_indices 1700000001000 1700000001001 1700000001002 upstream_503
                       month_cap_server) = Inr r
              \<and> nr_status r = 429 \<and> map_of (nr_headers r) ''retry-after'' = None))"
    by (rule rev_mp)
  from h3 c2 [THEN conjunct2, THEN conjunct2, THEN conjunct2]
  have c3: "\<exists>r. reply (GET_indices 1700000001000 1700000001001 1700000001002 upstream_503
                       month_cap_server) = Inr r
              \<and> nr_status r = 429 \<and> map_of (nr_headers r) ''retry-after'' = None"
    by (rule rev_mp)
  from h4 a [THEN conjunct2, THEN conjunct2, THEN conjunct1]
  have c4: "reason (fst (kv_consumeRateLimit 1700000001000 both_caps_store)) = Minute"
    by (rule rev_mp [THEN conjunct2])
  from h5 b [THEN conjunct2, THEN conjunct2, THEN conjunct2]
  have c5: "\<not> allowed (fst (kv_consumeRateLimit 1700000001000 month_cap_store))
      \<and> reason (fst (kv_consumeRateLimit 1700000001000 month_cap_store)) = Month
      \<and> retryAfterSeconds (fst (kv_consumeRateLimit 1700000001000 month_cap_store)) = None
      \<and> (kv month_cap_server = month_cap_store \<and> id_param request_1 = Some ''1''
            \<and> ''1'' \<noteq> [] \<longrightarrow>
           (\<exists>r. reply (GET_performance request_1 1700000001000 1700000001001 1700000001002
                       upstream_503 month_cap_server) = Inr r
              \<and> nr_status r = 429 \<and> map_of (nr_headers r) ''retry-after'' = None))"
    by (rule rev_mp)
  from h6 c5 [THEN conjunct2, THEN conjunct2, THEN conjunct2]
  have c6: "\<exists>r. reply (GET_performance request_1 1700000001000 1700000001001 1700000001002
                       upstream_503 month_cap_server) = Inr r
              \<and> nr_status r = 429 \<and> map_of (nr_headers r) ''retry-after'' = None"
    by (rule rev_mp)
  from h1 h2 h3 h4 h5 h6 c1 c2 c3 c4 c5 c6 show ?thesis
    by (intro conjI) (elim conjE, assumption)+
qed

subsection \<open>C9: the snapshot\<close>

text \<open>
  C9 as stated has \<^verbatim>\<open>rateLimitSnapshotHeaders()\<close> never write the counter state, so
  that a later \<^verbatim>\<open>consume()\<close> returns what it would have returned without it. The
  function calls \<^verbatim>\<open>ensureMinuteWindow\<close> and \<^verbatim>\<open>ensureMonthWindow\<close>, which write. With a
  window opened at 1700000000000 ms, a snapshot at 1700000061000 ms opens a new window
  there; a \<^verbatim>\<open>consume()\<close> at 1700000062000 ms then reports
  \<^verbatim>\<open>x-ratelimit-reset-minute\<close> = 1700000121, and 1700000122 without the snapshot.
\<close>

theorem C9_counterexample:
  "snd (rateLimitSnapshotHeaders 1700000061000 live_state) \<noteq> live_state
   \<and> map_of (headers (fst (consumeRateLimit 1700000062000
                (snd (rateLimitSnapshotHeaders 1700000061000 live_state)))))
        ''x-ratelimit-reset-minute'' = Some ''1700000121''
   \<and> map_of (headers (fst (consumeRateLimit 1700000062000 live_state)))
        ''x-ratelimit-reset-minute'' = Some ''1700000122''"
  by code_simp

text \<open>
  C9, amended. The snapshot increments nothing: it leaves the state as window
  resolution at its own clock reading leaves it, each counter either unchanged or reset
  to 0. A \<^verbatim>\<open>consume()\<close> at the same clock reading returns the same result and state
  with or without the snapshot before it. When the minute window is live and the month
  key current at the snapshot, the snapshot leaves the state unchanged, and every later
  \<^verbatim>\<open>consume()\<close> returns exactly what it would have returned without it.
\<close>

theorem C9_snapshot_resolves_only:
  "snd (rateLimitSnapshotHeaders now s) = resolved now s
   \<and> (minuteCount (snd (rateLimitSnapshotHeaders now s)) = minuteCount s
       \<or> minuteCount (snd (rateLimitSnapshotHeaders now s)) = 0)
   \<and> (monthCount (snd (rateLimitSnapshotHeaders now s)) = monthCount s
       \<or> monthCount (snd (rateLimitSnapshotHeaders now s)) = 0)
   \<and> consumeRateLimit now (snd (rateLimitSnapshotHeaders now s)) = consumeRateLimit now s
   \<and> (minuteWindowStart s \<noteq> 0 \<and> now - minuteWindowStart s < MINUTE_WINDOW_MS
        \<and> monthKey s = getMonthKey now \<longrightarrow>
      snd (rateLimitSnapshotHeaders now s) = s
      \<and> consumeRateLimit later (snd (rateLimitSnapshotHeaders now s)) = consumeRateLimit later s)"
proof (intro conjI impI)
  show "snd (rateLimitSnapshotHeaders now s) = resolved now s"
    by (rule snapshot_state)
  show "minuteCount (snd (rateLimitSnapshotHeaders now s)) = minuteCount s
       \<or> minuteCount (snd (rateLimitSnapshotHeaders now s)) = 0"
    unfolding snapshot_state by (rule resolved_counts [THEN conjunct1])
  show "monthCount (snd (rateLimitSnapshotHeaders now s)) = monthCount s
       \<or> monthCount (snd (rateLimitSnapshotHeaders now s)) = 0"
    unfolding snapshot_state by (rule resolved_counts [THEN conjunct2])
  show "consumeRateLimit now (snd (rateLimitSnapshotHeaders now s)) = consumeRateLimit now s"
    unfolding snapshot_state by (rule consume_resolved)
next
  assume "minuteWindowStart s \<noteq> 0 \<and> now - minuteWindowStart s < MINUTE_WINDOW_MS
        \<and> monthKey s = getMonthKey now"
  then have "resolved now s = s"
    by (intro resolved_live) simp_all
  then show u: "snd (rateLimitSnapshotHeaders now s) = s"
    by (simp only: snapshot_state)
  show "consumeRateLimit later (snd (rateLimitSnapshotHeaders now s)) = consumeRateLimit later s"
    by (simp only: u)
qed

theorem C9_snapshot_resolves_only_witness:
  "(minuteWindowStart live_state \<noteq> 0
      \<and> 1700000001000 - minuteWindowStart live_state < MINUTE_WINDOW_MS
      \<and> monthKey live_state = getMonthKey 1700000001000)
   \<and> snd (rateLimitSnapshotHeaders 1700000001000 live_state) = live_state
   \<and> consumeRateLimit 1700000002000 (snd (rateLimitSnapshotHeaders 1700000001000 live_state))
       = consumeRateLimit 1700000002000 live_state"
proof -
  have h: "minuteWindowStart live_state \<noteq> 0
      \<and> 1700000001000 - minuteWindowStart live_state < MINUTE_WINDOW_MS
      \<and> monthKey live_state = getMonthKey 1700000001000"
    by code_simp
  from h C9_snapshot_resolves_only [of 1700000001000 live_state 1700000002000,
        THEN conjunct2, THEN conjunct2, THEN conjunct2, THEN conjunct2]
  have "snd (rateLimitSnapshotHeaders 1700000001000 live_state) = live_state
   \<and> consumeRateLimit 1700000002000 (snd (rateLimitSnapshotHeaders 1700000001000 live_state))
       = consumeRateLimit 1700000002000 live_state"
    by (rule rev_mp)
  with h show ?thesis by (rule conjI)
qed

subsection \<open>C10: a falsy payload in the singleton slot\<close>

text \<open>
  C10. In the singleton cache of the parameterless route a stored payload that is
  falsy (\<^verbatim>\<open>null\<close>, \<^verbatim>\<open>false\<close>, \<^verbatim>\<open>0\<close>, \<^verbatim>\<open>""\<close>) is a miss whatever its age, so an
  allowed request fetches from the upstream again; a hit returns a truthy payload
  younger than the TTL.
\<close>

theorem C10_falsy_payload_is_miss:
  "(\<not> truthy (data c) \<longrightarrow> singleton_get now c = None)
   \<and> (singleton_get now c = Some p \<longrightarrow> truthy p \<and> p = data c \<and> now - ts c < HOT_CACHE_TTL_MS)
   \<and> (allowed (fst (consumeRateLimit tq (limiter g))) \<and> \<not> truthy (data (indicesCache g))
        \<longrightarrow> fetched (GET_indices tq tc tw fetch g) = [API_URL])
   \<and> \<not> truthy JNull \<and> \<not> truthy (JBool False) \<and> \<not> truthy (JNumber 0) \<and> \<not> truthy (JString [])"
proof (intro conjI impI)
  assume "\<not> truthy (data c)"
  then show "singleton_get now c = None"
    by (simp add: singleton_get_def)
next
  assume h: "singleton_get now c = Some p"
  then show "truthy p" and "p = data c" and "now - ts c < HOT_CACHE_TTL_MS"
    by (auto simp: singleton_get_def split: if_splits)
next
  assume "allowed (fst (consumeRateLimit tq (limiter g))) \<and> \<not> truthy (data (indicesCache g))"
  then show "fetched (GET_indices tq tc tw fetch g) = [API_URL]"
    by (intro falsy_refetch) simp_all
qed simp_all

text \<open>
  After the upstream has answered \<^verbatim>\<open>null\<close>, a request one second later finds the slot
  stamped a second ago, misses and fetches again; a slot holding an empty array hits.
\<close>

theorem C10_falsy_payload_is_miss_witness:
  "(\<not> truthy (data (indicesCache null_cached_server))
     \<and> 1700000001001 - ts (indicesCache null_cached_server) < HOT_CACHE_TTL_MS
     \<and> allowed (fst (consumeRateLimit 1700000001000 (limiter null_cached_server)))
     \<and> singleton_get 1700000001000 array_entry = Some (JArray []))
   \<and> singleton_get 1700000001001 (indicesCache null_cached_server) = None
   \<and> truthy (JArray [])
   \<and> fetched (GET_indices 1700000001000 1700000001001 1700000001002 upstream_null
                 null_cached_server) = [API_URL]"
proof -
  have h: "\<not> truthy (data (indicesCache null_cached_server))
     \<and> 1700000001001 - ts (indicesCache null_cached_server) < HOT_CACHE_TTL_MS
     \<and> allowed (fst (consumeRateLimit 1700000001000 (limiter null_cached_server)))
     \<and> singleton_get 1700000001000 array_entry = Some (JArray [])"
    by code_simp
  note t = C10_falsy_payload_is_miss
  from h [THEN conjunct1]
    t [of "indicesCache null_cached_server" 1700000001001, THEN conjunct1]
  have c1: "singleton_get 1700000001001 (indicesCache null_cached_server) = None"
    by (rule rev_mp)
  from h [THEN conjunct2, THEN conjunct2, THEN conjunct2]
    t [of array_entry 1700000001000 "JArray []", THEN conjunct2, THEN conjunct1]
  have c2: "truthy (JArray [])"
    by (rule rev_mp [THEN conjunct1])
  from h have "allowed (fst (consumeRateLimit 1700000001000 (limiter null_cached_server)))
      \<and> \<not> truthy (data (indicesCache null_cached_server))"
    by (elim conjE) (rule conjI)
  from this t [of _ _ _ 1700000001000 null_cached_server 1700000001001 1700000001002
      upstream_null, THEN conjunct2, THEN conjunct2, THEN conjunct1]
  have c3: "fetched (GET_indices 1700000001000 1700000001001 1700000001002 upstream_null
                 null_cached_server) = [API_URL]"
    by (rule rev_mp)
  from h c1 c2 c3 show ?thesis by (intro conjI) (elim conjE, assumption)+
qed

end
